theory Spec2Isabelle
  imports Complex_Main
begin

section \<open>Geometry engine (src/model.ts)\<close>

text \<open>
  A JavaScript \<open>number\<close> that holds a coordinate, a length or an angle is modelled as
  a real number: arithmetic is exact, the rounding of IEEE doubles is not modelled.
  The arguments \<open>index\<close> and \<open>total\<close> of the distribution function are
  \<open>number\<close>s in the source as well, so they are reals here; the theorems feed them
  natural numbers.
\<close>

definition PORT_SIZE :: real where
  "PORT_SIZE = 16"

definition PORT_OFFSET :: real where
  "PORT_OFFSET = 8"

datatype PortSide = Left | Right | Top | Bottom

record NodeSize =
  width :: real
  height :: real

record Position =
  posX :: real
  posY :: real

text \<open>\<open>distributeAlongAxis(index, total, length)\<close>, model.ts lines 56-63.\<close>

definition distributeAlongAxis :: "real \<Rightarrow> real \<Rightarrow> real \<Rightarrow> real" where
  "distributeAlongAxis index tot len =
     (if tot = 1 then (len - PORT_SIZE) / 2
      else let usableLength = len - PORT_SIZE;
               spacing = usableLength / (tot - 1)
           in spacing * index)"

text \<open>\<open>calculatePortPosition(side, index, totalOnSide, nodeSize)\<close>, model.ts lines 21-51.\<close>

fun calculatePortPosition :: "PortSide \<Rightarrow> real \<Rightarrow> real \<Rightarrow> NodeSize \<Rightarrow> Position" where
  "calculatePortPosition Left index totalOnSide nodeSize =
     \<lparr>posX = - PORT_OFFSET,
      posY = distributeAlongAxis index totalOnSide (height nodeSize)\<rparr>"
| "calculatePortPosition Right index totalOnSide nodeSize =
     \<lparr>posX = width nodeSize - PORT_OFFSET,
      posY = distributeAlongAxis index totalOnSide (height nodeSize)\<rparr>"
| "calculatePortPosition Top index totalOnSide nodeSize =
     \<lparr>posX = distributeAlongAxis index totalOnSide (width nodeSize),
      posY = - PORT_OFFSET\<rparr>"
| "calculatePortPosition Bottom index totalOnSide nodeSize =
     \<lparr>posX = distributeAlongAxis index totalOnSide (width nodeSize),
      posY = height nodeSize - PORT_OFFSET\<rparr>"

text \<open>\<open>rotatePoint(x, y, centerX, centerY, angleDegrees)\<close>, model.ts lines 214-237.\<close>

definition rotatePoint :: "real \<Rightarrow> real \<Rightarrow> real \<Rightarrow> real \<Rightarrow> real \<Rightarrow> Position" where
  "rotatePoint x y centerX centerY angleDegrees =
     (let angleRad = (angleDegrees * pi) / 180;
          translatedX = x - centerX;
          translatedY = y - centerY;
          rotatedX = translatedX * cos angleRad - translatedY * sin angleRad;
          rotatedY = translatedX * sin angleRad + translatedY * cos angleRad
      in \<lparr>posX = rotatedX + centerX, posY = rotatedY + centerY\<rparr>)"

text \<open>
  \<open>calculatePortPositionWithRotation(x, y, width, height, rotation, centerX, centerY)\<close>,
  model.ts lines 310-340.
\<close>

definition calculatePortPositionWithRotation ::
  "real \<Rightarrow> real \<Rightarrow> real \<Rightarrow> real \<Rightarrow> real \<Rightarrow> real \<Rightarrow> real \<Rightarrow> Position" where
  "calculatePortPositionWithRotation x y w h rotation centerX centerY =
     (if rotation \<noteq> 0 \<and> rotation \<noteq> - 360 \<and> rotation \<noteq> 360 then
        let portCenterX = x + w / 2;
            portCenterY = y + h / 2;
            rotated = rotatePoint portCenterX portCenterY centerX centerY rotation
        in \<lparr>posX = posX rotated - w / 2, posY = posY rotated - h / 2\<rparr>
      else \<lparr>posX = x, posY = y\<rparr>)"



section \<open>Data model (src/types.ts)\<close>

text \<open>
  The tree is a JSON document. Its elements carry a \<open>type\<close> tag, modelled by the
  constructor: \<open>port:flow\<close>, \<open>edge:flow\<close> and the three node tags \<open>node:process\<close>,
  \<open>node:svg\<close> and \<open>node:package\<close>. An optional property is an \<open>option\<close>. The
  properties \<open>rotation\<close> and \<open>originalPosition\<close> are written by the context-menu
  commands on whatever object they are handed, so every constructor that can be handed
  to them has the slot.
\<close>

datatype PortType = Input | Output

datatype PortShape = Circle | Square | Diamond | Triangle

datatype NodeKind = ProcessNode | SvgNode | PackageNode

datatype element =
    Port (elem_id: string) (position: Position) (elem_size: NodeSize)
         (portType: PortType) (shape: PortShape) (side: "PortSide option")
         (label: "string option") (originalPosition: "Position option")
         (rotation: "real option")
  | Edge (elem_id: string) (sourceId: string) (targetId: string) (rotation: "real option")
  | Node (kind: NodeKind) (elem_id: string) (position: Position) (elem_size: NodeSize)
         (name: string) (children: "element list")
         (flipHorizontal: "real option") (flipVertical: "real option")
         (enableFlipHorizontal: bool) (enableFlipVertical: bool)
         (originalPosition: "Position option") (rotation: "real option")
         (svgContent: "string option")

record SprottyGraph =
  graph_type :: string
  graph_id :: string
  graph_children :: "element list"

text \<open>The two private fields of the class \<open>GraphModel\<close>. The counter only ever holds
  a non-negative whole number, so it is a natural number here; its arithmetic is exact.\<close>

record GraphModel =
  model :: SprottyGraph
  edgeCounter :: nat

datatype error = TypeError

text \<open>Assignments to a property of an element. An edge has no \<open>position\<close> object, so
  \<open>e.position.x = ...\<close> throws on it.\<close>

fun set_position :: "Position \<Rightarrow> element \<Rightarrow> element option" where
  "set_position p (Port i _ s t sh sd l op r) = Some (Port i p s t sh sd l op r)"
| "set_position p (Edge i src tgt r) = None"
| "set_position p (Node k i _ s n cs fh fv efh efv op r svg) =
     Some (Node k i p s n cs fh fv efh efv op r svg)"

fun set_rotation :: "real \<Rightarrow> element \<Rightarrow> element" where
  "set_rotation r (Port i p s t sh sd l op _) = Port i p s t sh sd l op (Some r)"
| "set_rotation r (Edge i src tgt _) = Edge i src tgt (Some r)"
| "set_rotation r (Node k i p s n cs fh fv efh efv op _ svg) =
     Node k i p s n cs fh fv efh efv op (Some r) svg"

fun set_children :: "element list \<Rightarrow> element \<Rightarrow> element" where
  "set_children cs (Node k i p s n _ fh fv efh efv op r svg) =
     Node k i p s n cs fh fv efh efv op r svg"
| "set_children cs e = e"

fun set_size :: "NodeSize \<Rightarrow> element \<Rightarrow> element" where
  "set_size s (Node k i p _ n cs fh fv efh efv op r svg) =
     Node k i p s n cs fh fv efh efv op r svg"
| "set_size s e = e"

section \<open>Numbers in identifiers\<close>

text \<open>The decimal digits a template literal writes for a natural number.\<close>

definition digitChar :: "nat \<Rightarrow> char" where
  "digitChar d = char_of (48 + d)"

fun show_nat :: "nat \<Rightarrow> string" where
  "show_nat n = (if n < 10 then [digitChar n] else show_nat (n div 10) @ [digitChar (n mod 10)])"

declare show_nat.simps [simp del]

text \<open>The character class \<open>\d\<close> and \<open>parseInt\<close> on a string of decimal digits.\<close>

definition isDigit :: "char \<Rightarrow> bool" where
  "isDigit c = (48 \<le> (of_char c :: nat) \<and> (of_char c :: nat) \<le> 57)"

definition digitValue :: "char \<Rightarrow> nat" where
  "digitValue c = of_char c - 48"

definition parseInt :: "string \<Rightarrow> nat" where
  "parseInt ds = foldl (\<lambda>n c. 10 * n + digitValue c) 0 ds"

text \<open>
  \<open>id.match(/edge-(\d+)/)\<close>: the leftmost place where \<open>edge-\<close> is followed by at least
  one digit; the group is the longest run of digits there. The expression is not
  anchored, so the place may be anywhere in the id.
\<close>

fun matchEdgeNumber :: "string \<Rightarrow> string option" where
  "matchEdgeNumber [] = None"
| "matchEdgeNumber (c # cs) =
     (let digits = takeWhile isDigit (drop 5 (c # cs))
      in if take 5 (c # cs) = ''edge-'' \<and> digits \<noteq> [] then Some digits
         else matchEdgeNumber cs)"

section \<open>Edges (src/model.ts)\<close>

text \<open>\<open>extractNodeId(portId)\<close>, model.ts lines 998-1011. \<open>portId.split('-')[0]\<close> is the
  text before the first hyphen, the whole id when it has none.\<close>

fun ownerOfPort :: "string \<Rightarrow> element list \<Rightarrow> string option" where
  "ownerOfPort portId [] = None"
| "ownerOfPort portId (child # rest) =
     (if is_Node child \<and> (kind child = ProcessNode \<or> kind child = SvgNode)
         \<and> list_ex (\<lambda>port. elem_id port = portId) (children child)
      then Some (elem_id child)
      else ownerOfPort portId rest)"

definition extractNodeId :: "GraphModel \<Rightarrow> string \<Rightarrow> string" where
  "extractNodeId st portId =
     (case ownerOfPort portId (graph_children (model st)) of
        Some nodeId \<Rightarrow> nodeId
      | None \<Rightarrow> takeWhile (\<lambda>c. c \<noteq> CHR ''-'') portId)"

record Validation =
  valid :: bool
  reason :: "string option"

text \<open>\<open>validateEdge(sourcePortId, targetPortId)\<close>, model.ts lines 974-996.\<close>

definition validateEdge :: "GraphModel \<Rightarrow> string \<Rightarrow> string \<Rightarrow> Validation" where
  "validateEdge st sourcePortId targetPortId =
     (let sourceNodeId = extractNodeId st sourcePortId;
          targetNodeId = extractNodeId st targetPortId
      in if sourceNodeId = targetNodeId
         then \<lparr>valid = False, reason = Some ''Cannot connect a node to itself''\<rparr>
         else
           let exists = list_ex (\<lambda>child. is_Edge child \<and> sourceId child = sourcePortId
                                        \<and> targetId child = targetPortId)
                          (graph_children (model st))
           in if exists then \<lparr>valid = False, reason = Some ''Edge already exists''\<rparr>
              else \<lparr>valid = True, reason = None\<rparr>)"

record EdgeResult =
  success :: bool
  message :: string

text \<open>The arrow U+2192 of the confirmation message, in UTF-8.\<close>

definition arrow :: string where
  "arrow = [char_of (226::nat), char_of (134::nat), char_of (146::nat)]"

text \<open>\<open>addEdge(sourcePortId, targetPortId)\<close>, model.ts lines 955-972. The result is the
  returned object and the state after the call.\<close>

definition addEdge :: "GraphModel \<Rightarrow> string \<Rightarrow> string \<Rightarrow> EdgeResult \<times> GraphModel" where
  "addEdge st sourcePortId targetPortId =
     (let validation = validateEdge st sourcePortId targetPortId
      in if \<not> valid validation
         then (\<lparr>success = False,
                message = (case reason validation of
                             None \<Rightarrow> ''Invalid edge''
                           | Some r \<Rightarrow> if r = [] then ''Invalid edge'' else r)\<rparr>, st)
         else
           let counter = Suc (edgeCounter st);
               edgeId = ''edge-'' @ show_nat counter;
               newEdge = Edge edgeId sourcePortId targetPortId None
           in (\<lparr>success = True,
                message = ''Edge created: '' @ sourcePortId @ '' '' @ arrow @ '' '' @ targetPortId\<rparr>,
               st\<lparr>edgeCounter := counter,
                  model := (model st)\<lparr>graph_children :=
                              graph_children (model st) @ [newEdge]\<rparr>\<rparr>))"

text \<open>A caller that makes the calls of a list one after the other and keeps the
  results.\<close>

fun addEdges :: "GraphModel \<Rightarrow> (string \<times> string) list \<Rightarrow> EdgeResult list \<times> GraphModel" where
  "addEdges st [] = ([], st)"
| "addEdges st ((s, t) # calls) =
     (case addEdge st s t of
        (r, st') \<Rightarrow> (case addEdges st' calls of (rs, st'') \<Rightarrow> (r # rs, st'')))"

definition edgeCount :: "GraphModel \<Rightarrow> nat" where
  "edgeCount st = length (filter is_Edge (graph_children (model st)))"

section \<open>Bulk load (src/model.ts)\<close>

text \<open>
  The DOM is the platform's: \<open>DOMParser\<close>, \<open>querySelector('svg')\<close> and
  \<open>querySelectorAll('[data-attribute="port"]')\<close> are taken as one parameter, a function
  from the vector payload to the port markers in document order, \<open>None\<close> when the
  payload has no \<open>svg\<close> element. A marker is the attributes \<open>extractPortInfo\<close> reads;
  the numeric ones are given as the numbers \<open>parseFloat\<close> reads from them, \<open>None\<close>
  when the attribute is absent or empty.
\<close>

record SvgRect =
  data_attribute_class :: "string option"
  data_attribute_id :: "string option"
  data_attribute_type :: "string option"
  attr_x :: "real option"
  attr_y :: "real option"
  attr_width :: "real option"
  attr_height :: "real option"

type_synonym DomParser = "string \<Rightarrow> SvgRect list option"

record PortInfo =
  portClass :: string
  portId :: string
  portAttributeType :: string
  portX :: real
  portY :: real
  portWidth :: real
  portHeight :: real

definition orEmpty :: "string option \<Rightarrow> string" where
  "orEmpty a = (case a of None \<Rightarrow> [] | Some v \<Rightarrow> v)"

definition orZero :: "real option \<Rightarrow> real" where
  "orZero a = (case a of None \<Rightarrow> 0 | Some v \<Rightarrow> v)"

text \<open>\<open>extractPortInfo(element, nodeId, index)\<close>, model.ts lines 286-305.\<close>

definition extractPortInfo :: "SvgRect \<Rightarrow> string \<Rightarrow> nat \<Rightarrow> PortInfo" where
  "extractPortInfo rect nodeId index =
     (let cls = orEmpty (data_attribute_class rect)
      in \<lparr>portClass = cls,
          portId = (if orEmpty (data_attribute_id rect) \<noteq> []
                    then nodeId @ ''-'' @ cls
                    else nodeId @ ''-port-'' @ show_nat index),
          portAttributeType = orEmpty (data_attribute_type rect),
          portX = orZero (attr_x rect),
          portY = orZero (attr_y rect),
          portWidth = orZero (attr_width rect),
          portHeight = orZero (attr_height rect)\<rparr>)"

text \<open>\<open>Array.prototype.findIndex\<close>: the place of the object \<open>find\<close> returns.\<close>

fun findIndex :: "('a \<Rightarrow> bool) \<Rightarrow> 'a list \<Rightarrow> nat option" where
  "findIndex P [] = None"
| "findIndex P (a # as) = (if P a then Some 0 else map_option Suc (findIndex P as))"

text \<open>A \<open>forEach\<close> whose body may throw: the elements before the throw are updated,
  the one that throws and the ones after it are left as they were.\<close>

fun forEachUpdate :: "('a \<Rightarrow> 'a option) \<Rightarrow> 'a list \<Rightarrow> error option \<times> 'a list" where
  "forEachUpdate f [] = (None, [])"
| "forEachUpdate f (a # as) =
     (case f a of
        None \<Rightarrow> (Some TypeError, a # as)
      | Some a' \<Rightarrow> (case forEachUpdate f as of (e, as') \<Rightarrow> (e, a' # as')))"

text \<open>The loop of \<open>updatePortPositionsFromSvg\<close>, model.ts lines 653-675, over the
  markers left and their index.\<close>

fun portsFromSvgLoop ::
  "string \<Rightarrow> real \<Rightarrow> real \<Rightarrow> real \<Rightarrow> SvgRect list \<Rightarrow> nat \<Rightarrow> element list
     \<Rightarrow> error option \<times> element list" where
  "portsFromSvgLoop nodeId rot centerX centerY [] index cs = (None, cs)"
| "portsFromSvgLoop nodeId rot centerX centerY (rect # rects) index cs =
     (let portInfo = extractPortInfo rect nodeId index
      in case findIndex (\<lambda>p. elem_id p = portId portInfo) cs of
           None \<Rightarrow> portsFromSvgLoop nodeId rot centerX centerY rects (Suc index) cs
         | Some k \<Rightarrow>
             (let pos = calculatePortPositionWithRotation (portX portInfo) (portY portInfo)
                          (portWidth portInfo) (portHeight portInfo) rot centerX centerY
              in case set_position pos (cs ! k) of
                   None \<Rightarrow> (Some TypeError, cs)
                 | Some port \<Rightarrow>
                     portsFromSvgLoop nodeId rot centerX centerY rects (Suc index)
                       (cs[k := port])))"

text \<open>\<open>updatePortPositionsFromSvg(node, rotation, centerX, centerY)\<close>, model.ts lines
  639-676. The caller has checked that the node has a payload.\<close>

definition updatePortPositionsFromSvg ::
  "DomParser \<Rightarrow> element \<Rightarrow> real \<Rightarrow> real \<Rightarrow> real \<Rightarrow> error option \<times> element" where
  "updatePortPositionsFromSvg parser node rot centerX centerY =
     (case parser (orEmpty (svgContent node)) of
        None \<Rightarrow> (None, node)
      | Some portElements \<Rightarrow>
          (case portsFromSvgLoop (elem_id node) rot centerX centerY portElements 0
                  (children node) of
             (e, cs) \<Rightarrow> (e, set_children cs node)))"

text \<open>\<open>rotateExistingPortPositions(node, rotation, centerX, centerY)\<close>, model.ts lines
  682-706.\<close>

definition rotateExistingPort :: "real \<Rightarrow> real \<Rightarrow> real \<Rightarrow> element \<Rightarrow> element option" where
  "rotateExistingPort rot centerX centerY port =
     (if is_Edge port then None
      else
        let portCenterX = posX (position port) + width (elem_size port) / 2;
            portCenterY = posY (position port) + height (elem_size port) / 2;
            rotated = rotatePoint portCenterX portCenterY centerX centerY rot
        in set_position \<lparr>posX = posX rotated - width (elem_size port) / 2,
                         posY = posY rotated - height (elem_size port) / 2\<rparr> port)"

definition rotateExistingPortPositions ::
  "element \<Rightarrow> real \<Rightarrow> real \<Rightarrow> real \<Rightarrow> error option \<times> element" where
  "rotateExistingPortPositions node rot centerX centerY =
     (case forEachUpdate (rotateExistingPort rot centerX centerY) (children node) of
        (e, cs) \<Rightarrow> (e, set_children cs node))"

text \<open>The body of the \<open>forEach\<close> of \<open>recalculatePortPositionsForRotatedNodes\<close>, model.ts
  lines 610-633, on one top-level child; the filter of lines 606-608 is its first test.\<close>

definition recalculateNode :: "DomParser \<Rightarrow> element \<Rightarrow> error option \<times> element" where
  "recalculateNode parser node =
     (if is_Node node \<and> (kind node = SvgNode \<or> kind node = ProcessNode) then
        (case rotation node of
           None \<Rightarrow> (None, node)
         | Some rot \<Rightarrow>
             if rot = 0 \<or> rot = - 360 \<or> rot = 360 then (None, node)
             else
               let centerX = width (elem_size node) / 2;
                   centerY = height (elem_size node) / 2
               in if orEmpty (svgContent node) \<noteq> []
                  then updatePortPositionsFromSvg parser node rot centerX centerY
                  else rotateExistingPortPositions node rot centerX centerY)
      else (None, node))"

fun recalculatePortPositionsForRotatedNodes ::
  "DomParser \<Rightarrow> element list \<Rightarrow> error option \<times> element list" where
  "recalculatePortPositionsForRotatedNodes parser [] = (None, [])"
| "recalculatePortPositionsForRotatedNodes parser (node # rest) =
     (case recalculateNode parser node of
        (Some e, node') \<Rightarrow> (Some e, node' # rest)
      | (None, node') \<Rightarrow>
          (case recalculatePortPositionsForRotatedNodes parser rest of
             (e, rest') \<Rightarrow> (e, node' # rest')))"

text \<open>The \<open>reduce\<close> of \<open>loadFromJson\<close>, model.ts lines 586-593.\<close>

definition edgeNumber :: "string \<Rightarrow> nat option" where
  "edgeNumber ident = map_option parseInt (matchEdgeNumber ident)"

definition maxEdgeId :: "element list \<Rightarrow> nat" where
  "maxEdgeId cs =
     foldl (\<lambda>mx edge. case edgeNumber (elem_id edge) of
                         Some n \<Rightarrow> max mx n
                       | None \<Rightarrow> mx)
       0 (filter is_Edge cs)"

text \<open>\<open>loadFromJson(jsonModel)\<close>, model.ts lines 584-598: the exception the repair of
  the port positions throws, if any, and the state after the call. The model and the
  counter are assigned before the repair starts.\<close>

definition loadFromJson ::
  "DomParser \<Rightarrow> GraphModel \<Rightarrow> SprottyGraph \<Rightarrow> error option \<times> GraphModel" where
  "loadFromJson parser st jsonModel =
     (case recalculatePortPositionsForRotatedNodes parser (graph_children jsonModel) of
        (e, cs) \<Rightarrow>
          (e, st\<lparr>model := jsonModel\<lparr>graph_children := cs\<rparr>,
                 edgeCounter := maxEdgeId (graph_children jsonModel)\<rparr>))"

definition getModel :: "GraphModel \<Rightarrow> SprottyGraph" where
  "getModel st = model st"

text \<open>\<open>createInitialModel()\<close>, model.ts lines 451-574, and the constructor.\<close>

definition createInitialModel :: SprottyGraph where
  "createInitialModel = \<lparr>graph_type = ''graph'', graph_id = ''root'', graph_children = []\<rparr>"

definition newGraphModel :: GraphModel where
  "newGraphModel = \<lparr>model = createInitialModel, edgeCounter = 0\<rparr>"

section \<open>Creating nodes (src/model.ts)\<close>

record PortConfig =
  cfg_id :: "string option"
  cfg_type :: PortType
  cfg_side :: PortSide
  cfg_index :: "real option"
  cfg_shape :: "PortShape option"
  cfg_label :: "string option"

record ICreateNodeWithPorts =
  new_id :: string
  new_x :: real
  new_y :: real
  new_name :: string
  new_ports :: "PortConfig list"
  new_size :: NodeSize
  new_flipHorizontal :: "real option"
  new_flipVertical :: "real option"
  new_rotation :: "real option"

fun sideName :: "PortSide \<Rightarrow> string" where
  "sideName Left = ''left''"
| "sideName Right = ''right''"
| "sideName Top = ''top''"
| "sideName Bottom = ''bottom''"

fun portTypeName :: "PortType \<Rightarrow> string" where
  "portTypeName Input = ''input''"
| "portTypeName Output = ''output''"

text \<open>The inner \<open>forEach\<close> of \<open>createNodeWithPorts\<close>, model.ts lines 95-117, over the
  ports of one side that are left and their index.\<close>

fun createSidePorts ::
  "string \<Rightarrow> NodeSize \<Rightarrow> PortSide \<Rightarrow> nat \<Rightarrow> PortConfig list \<Rightarrow> nat \<Rightarrow> element list" where
  "createSidePorts ident sz sd n [] index = []"
| "createSidePorts ident sz sd n (port # sidePorts) index =
     (let pos = calculatePortPosition sd
                  (case cfg_index port of Some i \<Rightarrow> i | None \<Rightarrow> real index) (real n) sz;
          pid = (if orEmpty (cfg_id port) \<noteq> [] then ident @ ''-'' @ orEmpty (cfg_id port)
                 else ident @ ''-'' @ sideName sd @ ''-'' @ portTypeName (cfg_type port)
                        @ ''-'' @ show_nat index)
      in Port pid pos \<lparr>width = PORT_SIZE, height = PORT_SIZE\<rparr> (cfg_type port)
           (case cfg_shape port of Some sh \<Rightarrow> sh | None \<Rightarrow> Circle) (Some sd)
           (cfg_label port) None None
         # createSidePorts ident sz sd n sidePorts (Suc index))"

text \<open>\<open>createNodeWithPorts(config)\<close>, model.ts lines 68-131.\<close>

definition createNodeWithPorts :: "ICreateNodeWithPorts \<Rightarrow> element" where
  "createNodeWithPorts config =
     (let portsOn = (\<lambda>sd. filter (\<lambda>port. cfg_side port = sd) (new_ports config));
          cs = concat (map (\<lambda>sd. createSidePorts (new_id config) (new_size config) sd
                                   (length (portsOn sd)) (portsOn sd) 0)
                         [Left, Right, Top, Bottom])
      in Node ProcessNode (new_id config) \<lparr>posX = new_x config, posY = new_y config\<rparr>
           \<lparr>width = width (new_size config), height = height (new_size config)\<rparr>
           (new_name config) cs (new_flipHorizontal config) (new_flipVertical config)
           False False None
           (Some (case new_rotation config of Some r \<Rightarrow> r | None \<Rightarrow> 0)) None)"

section \<open>Resizing a node (src/model.ts)\<close>

text \<open>The helper \<open>findNode(children)\<close> of \<open>updateNodeSize\<close>, model.ts lines 894-908.\<close>

fun findNode :: "string \<Rightarrow> element list \<Rightarrow> element option" where
  "findNode nodeId [] = None"
| "findNode nodeId (Node k i p s n cs fh fv efh efv op r svg # rest) =
     (if i = nodeId then Some (Node k i p s n cs fh fv efh efv op r svg)
      else if k = PackageNode then
        (case findNode nodeId cs of
           Some found \<Rightarrow> Some found
         | None \<Rightarrow> findNode nodeId rest)
      else findNode nodeId rest)"
| "findNode nodeId (Port i p s t sh sd l op r # rest) = findNode nodeId rest"
| "findNode nodeId (Edge i src tgt r # rest) = findNode nodeId rest"

text \<open>The source changes the object \<open>findNode\<close> returns in place. Here the tree is
  rebuilt along the same search with the change \<open>f\<close> made at the node found; \<open>None\<close>
  when the search finds nothing.\<close>

fun modifyNode :: "string \<Rightarrow> (element \<Rightarrow> element) \<Rightarrow> element list \<Rightarrow> element list option" where
  "modifyNode nodeId f [] = None"
| "modifyNode nodeId f (Node k i p s n cs fh fv efh efv op r svg # rest) =
     (if i = nodeId then Some (f (Node k i p s n cs fh fv efh efv op r svg) # rest)
      else if k = PackageNode then
        (case modifyNode nodeId f cs of
           Some cs' \<Rightarrow> Some (Node k i p s n cs' fh fv efh efv op r svg # rest)
         | None \<Rightarrow>
             map_option ((#) (Node k i p s n cs fh fv efh efv op r svg))
               (modifyNode nodeId f rest))
      else map_option ((#) (Node k i p s n cs fh fv efh efv op r svg))
             (modifyNode nodeId f rest))"
| "modifyNode nodeId f (Port i p s t sh sd l op r # rest) =
     map_option ((#) (Port i p s t sh sd l op r)) (modifyNode nodeId f rest)"
| "modifyNode nodeId f (Edge i src tgt r # rest) =
     map_option ((#) (Edge i src tgt r)) (modifyNode nodeId f rest)"

text \<open>\<open>portsPerSide\<close>, model.ts lines 922-937: the ports of each side in the order of the
  children. The source keeps references to the port objects; here a reference is the
  place of the port among the children.\<close>

definition portsPerSide :: "element list \<Rightarrow> PortSide \<Rightarrow> nat list" where
  "portsPerSide cs sd =
     filter (\<lambda>k. is_Port (cs ! k) \<and> side (cs ! k) = Some sd) [0..<length cs]"

text \<open>The inner \<open>forEach\<close> of model.ts lines 941-950, over the references left and their
  index.\<close>

fun placePorts ::
  "PortSide \<Rightarrow> nat \<Rightarrow> NodeSize \<Rightarrow> nat list \<Rightarrow> nat \<Rightarrow> element list \<Rightarrow> element list" where
  "placePorts sd n sz [] index cs = cs"
| "placePorts sd n sz (ref # refs) index cs =
     placePorts sd n sz refs (Suc index)
       (cs[ref := (case set_position (calculatePortPosition sd (real index) (real n) sz)
                          (cs ! ref) of
                     Some port \<Rightarrow> port | None \<Rightarrow> cs ! ref)])"

text \<open>The outer loop over \<open>Object.entries(portsPerSide)\<close>, model.ts lines 940-951: the
  sides in the order the record lists them.\<close>

definition repositionPorts :: "NodeSize \<Rightarrow> element list \<Rightarrow> element list" where
  "repositionPorts sz cs =
     fold (\<lambda>sd acc. placePorts sd (length (portsPerSide cs sd)) sz (portsPerSide cs sd) 0 acc)
       [Left, Right, Top, Bottom] cs"

text \<open>The body of \<open>updateNodeSize\<close> on the node found, model.ts lines 912-952.\<close>

definition resizeNode :: "real \<Rightarrow> real \<Rightarrow> element \<Rightarrow> element" where
  "resizeNode w h node =
     (let sz = \<lparr>width = w, height = h\<rparr>
      in set_children (repositionPorts sz (children node)) (set_size sz node))"

text \<open>\<open>updateNodeSize(nodeId, width, height)\<close>, model.ts lines 892-953.\<close>

definition updateNodeSize :: "GraphModel \<Rightarrow> string \<Rightarrow> real \<Rightarrow> real \<Rightarrow> GraphModel" where
  "updateNodeSize st nodeId w h =
     (case modifyNode nodeId (resizeNode w h) (graph_children (model st)) of
        None \<Rightarrow> st
      | Some cs \<Rightarrow> st\<lparr>model := (model st)\<lparr>graph_children := cs\<rparr>\<rparr>)"

section \<open>Rotating a node (src/model/ResizeCommand.ts, class CustomMouseListener)\<close>

text \<open>The listener holds a reference to the graph model and an update callback; both
  may be unset. The callback only asks the renderer to redraw.\<close>

record CustomMouseListener =
  graphModel :: "GraphModel option"
  updateCallback :: bool

text \<open>The flips of lines 605-610 and 654-659 and the rotation that follows them: the
  position of a port from its baseline corner and its size.\<close>

definition transformedPosition :: "element \<Rightarrow> real \<Rightarrow> real \<Rightarrow> real \<Rightarrow> real \<Rightarrow> Position" where
  "transformedPosition node x0 y0 w h =
     (let centerX = width (elem_size node) / 2;
          centerY = height (elem_size node) / 2;
          rot = (case rotation node of Some r \<Rightarrow> r | None \<Rightarrow> 0);
          x = (if enableFlipHorizontal node
               then width (elem_size node) - x0 - w + orZero (flipHorizontal node) else x0);
          y = (if enableFlipVertical node
               then height (elem_size node) - y0 - h + orZero (flipVertical node) else y0)
      in calculatePortPositionWithRotation x y w h rot centerX centerY)"

text \<open>The loop of \<open>updateSvgNodePortPositions\<close>, ResizeCommand.ts lines 594-627.\<close>

fun svgNodePortsLoop ::
  "element \<Rightarrow> SvgRect list \<Rightarrow> nat \<Rightarrow> element list \<Rightarrow> error option \<times> element list" where
  "svgNodePortsLoop node [] index cs = (None, cs)"
| "svgNodePortsLoop node (rect # rects) index cs =
     (let portInfo = extractPortInfo rect (elem_id node) index
      in case findIndex (\<lambda>p. elem_id p = portId portInfo) cs of
           None \<Rightarrow> svgNodePortsLoop node rects (Suc index) cs
         | Some k \<Rightarrow>
             (case set_position (transformedPosition node (portX portInfo) (portY portInfo)
                                   (portWidth portInfo) (portHeight portInfo)) (cs ! k) of
                None \<Rightarrow> (Some TypeError, cs)
              | Some port \<Rightarrow> svgNodePortsLoop node rects (Suc index) (cs[k := port])))"

text \<open>\<open>updateSvgNodePortPositions(node)\<close>, ResizeCommand.ts lines 576-628.\<close>

definition updateSvgNodePortPositions ::
  "DomParser \<Rightarrow> element \<Rightarrow> error option \<times> element" where
  "updateSvgNodePortPositions parser node =
     (if orEmpty (svgContent node) = [] then (None, node)
      else case parser (orEmpty (svgContent node)) of
             None \<Rightarrow> (None, node)
           | Some portElements \<Rightarrow>
               (case svgNodePortsLoop node portElements 0 (children node) of
                  (e, cs) \<Rightarrow> (e, set_children cs node)))"

text \<open>The body of the \<open>forEach\<close> of \<open>updateProcessNodePortPositions\<close>, ResizeCommand.ts
  lines 640-677, on one child. An edge has neither \<open>originalPosition\<close> nor \<open>position\<close>,
  so reading \<open>port.position.x\<close> throws on it.\<close>

fun updateProcessPort :: "element \<Rightarrow> element \<Rightarrow> element option" where
  "updateProcessPort node (Port i p s t sh sd l op r) =
     (let original = (case op of Some q \<Rightarrow> q | None \<Rightarrow> p);
          portWidth = (if width s = 0 then 16 else width s);
          portHeight = (if height s = 0 then 16 else height s)
      in Some (Port i (transformedPosition node (posX original) (posY original)
                         portWidth portHeight)
                 s t sh sd l (Some original) r))"
| "updateProcessPort node (Node k i p s n cs fh fv efh efv op r svg) =
     (let original = (case op of Some q \<Rightarrow> q | None \<Rightarrow> p);
          portWidth = (if width s = 0 then 16 else width s);
          portHeight = (if height s = 0 then 16 else height s)
      in Some (Node k i (transformedPosition node (posX original) (posY original)
                           portWidth portHeight)
                 s n cs fh fv efh efv (Some original) r svg))"
| "updateProcessPort node (Edge i src tgt r) = None"

text \<open>\<open>updateProcessNodePortPositions(node)\<close>, ResizeCommand.ts lines 630-678.\<close>

definition updateProcessNodePortPositions :: "element \<Rightarrow> error option \<times> element" where
  "updateProcessNodePortPositions node =
     (case forEachUpdate (updateProcessPort node) (children node) of
        (e, cs) \<Rightarrow> (e, set_children cs node))"

text \<open>\<open>updateNodePortPositions(node)\<close>, ResizeCommand.ts lines 565-574. Only a node has
  \<open>children\<close>.\<close>

definition updateNodePortPositions :: "DomParser \<Rightarrow> element \<Rightarrow> error option \<times> element" where
  "updateNodePortPositions parser node =
     (if \<not> is_Node node then (None, node)
      else if svgContent node \<noteq> None then updateSvgNodePortPositions parser node
      else updateProcessNodePortPositions node)"

text \<open>What the two rotate commands share: the element with the id is looked up among
  the top-level children, its \<open>rotation\<close> is overwritten with \<open>next current\<close>, and its
  ports are repositioned. Reading \<open>rotation\<close> of \<open>undefined\<close>, when no child has the id,
  throws before anything is changed; an exception thrown while the ports are
  repositioned leaves the changes made so far.\<close>

definition rotateModelNode ::
  "(real \<Rightarrow> real) \<Rightarrow> DomParser \<Rightarrow> CustomMouseListener \<Rightarrow> string
     \<Rightarrow> error option \<times> CustomMouseListener" where
  "rotateModelNode next parser listener nodeId =
     (case graphModel listener of
        None \<Rightarrow> (None, listener)
      | Some gm \<Rightarrow>
          if \<not> updateCallback listener then (None, listener)
          else
            let cs = graph_children (getModel gm)
            in case findIndex (\<lambda>child. elem_id child = nodeId) cs of
                 None \<Rightarrow> (Some TypeError, listener)
               | Some k \<Rightarrow>
                   (let modelNode = cs ! k;
                        currentRotation = (case rotation modelNode of Some r \<Rightarrow> r | None \<Rightarrow> 0);
                        newRotation = next currentRotation
                    in case updateNodePortPositions parser (set_rotation newRotation modelNode) of
                         (e, modelNode') \<Rightarrow>
                           (e, listener\<lparr>graphModel :=
                                 Some (gm\<lparr>model := (model gm)\<lparr>graph_children :=
                                                       cs[k := modelNode']\<rparr>\<rparr>)\<rparr>)))"

text \<open>\<open>rotateLeftNode(node)\<close>, ResizeCommand.ts lines 511-535.\<close>

definition rotateLeftNode ::
  "DomParser \<Rightarrow> CustomMouseListener \<Rightarrow> string \<Rightarrow> error option \<times> CustomMouseListener" where
  "rotateLeftNode parser listener nodeId =
     rotateModelNode (\<lambda>currentRotation.
         if currentRotation = - 360 then - 90 else currentRotation - 90)
       parser listener nodeId"

text \<open>\<open>rotateRightNode(node)\<close>, ResizeCommand.ts lines 537-560.\<close>

definition rotateRightNode ::
  "DomParser \<Rightarrow> CustomMouseListener \<Rightarrow> string \<Rightarrow> error option \<times> CustomMouseListener" where
  "rotateRightNode parser listener nodeId =
     rotateModelNode (\<lambda>currentRotation.
         if currentRotation = 360 then 90 else currentRotation + 90)
       parser listener nodeId"

text \<open>The command chosen \<open>n\<close> times in a row on the same node; an exception of one
  call does not keep the user from choosing the command again.\<close>

fun rotateRightTimes :: "nat \<Rightarrow> DomParser \<Rightarrow> CustomMouseListener \<Rightarrow> string \<Rightarrow> CustomMouseListener" where
  "rotateRightTimes 0 parser listener nodeId = listener"
| "rotateRightTimes (Suc n) parser listener nodeId =
     rotateRightTimes n parser (snd (rotateRightNode parser listener nodeId)) nodeId"

text \<open>The rotation stored for the element the commands look up.\<close>

definition storedRotation :: "CustomMouseListener \<Rightarrow> string \<Rightarrow> real option" where
  "storedRotation listener nodeId =
     (case graphModel listener of
        None \<Rightarrow> None
      | Some gm \<Rightarrow>
          (case find (\<lambda>child. elem_id child = nodeId) (graph_children (getModel gm)) of
             None \<Rightarrow> None
           | Some modelNode \<Rightarrow> rotation modelNode))"

section \<open>Notions the theorems are stated with\<close>

text \<open>An element with its position overwritten (an edge, which has none, as it is).\<close>

definition moved :: "Position \<Rightarrow> element \<Rightarrow> element" where
  "moved pos e = (case set_position pos e of Some port \<Rightarrow> port | None \<Rightarrow> e)"

text \<open>The ordinal of a port within its side: its place in the list of the side's ports.\<close>

definition placeOf :: "nat list \<Rightarrow> nat \<Rightarrow> nat" where
  "placeOf refs k = length (takeWhile (\<lambda>r. r \<noteq> k) refs)"

text \<open>A rotation in the neutral band, or none.\<close>

definition neutralRotation :: "real option \<Rightarrow> bool" where
  "neutralRotation r = (r = None \<or> r = Some 0 \<or> r = Some 360 \<or> r = Some (- 360))"

section \<open>Example trees\<close>

text \<open>A process node of 120 by 60 with two input ports on the left and an output port on
  the right, a second node with one input port, a package that holds a node with a port
  that has no side, and edges whose highest number is 7.\<close>

definition examplePort :: "string \<Rightarrow> PortType \<Rightarrow> PortSide \<Rightarrow> PortConfig" where
  "examplePort suffix t sd =
     \<lparr>cfg_id = Some suffix, cfg_type = t, cfg_side = sd, cfg_index = None,
      cfg_shape = None, cfg_label = None\<rparr>"

definition exampleNode1 :: element where
  "exampleNode1 = createNodeWithPorts
     \<lparr>new_id = ''node1'', new_x = 100, new_y = 100, new_name = ''Source'',
      new_ports = [examplePort ''in1'' Input Left, examplePort ''out'' Output Right,
                   examplePort ''in2'' Input Left],
      new_size = \<lparr>width = 120, height = 60\<rparr>,
      new_flipHorizontal = None, new_flipVertical = None, new_rotation = None\<rparr>"

definition exampleNode2 :: element where
  "exampleNode2 = createNodeWithPorts
     \<lparr>new_id = ''node2'', new_x = 300, new_y = 100, new_name = ''Sink'',
      new_ports = [examplePort ''in'' Input Left],
      new_size = \<lparr>width = 120, height = 60\<rparr>,
      new_flipHorizontal = None, new_flipVertical = None, new_rotation = Some 360\<rparr>"

definition exampleInner :: element where
  "exampleInner =
     Node ProcessNode ''inner'' \<lparr>posX = 50, posY = 50\<rparr> \<lparr>width = 120, height = 60\<rparr> ''Inner''
       [Port ''inner-a'' \<lparr>posX = - 8, posY = 0\<rparr> \<lparr>width = 16, height = 16\<rparr>
          Input Circle (Some Left) None None None,
        Port ''inner-free'' \<lparr>posX = 5, posY = 7\<rparr> \<lparr>width = 16, height = 16\<rparr>
          Input Circle None None None None,
        Port ''inner-out'' \<lparr>posX = 112, posY = 22\<rparr> \<lparr>width = 16, height = 16\<rparr>
          Output Square (Some Right) None None None,
        Port ''inner-b'' \<lparr>posX = - 8, posY = 44\<rparr> \<lparr>width = 16, height = 16\<rparr>
          Input Circle (Some Left) None None None]
       None None False False None (Some 90) None"

definition examplePackage :: element where
  "examplePackage =
     Node PackageNode ''package1'' \<lparr>posX = 0, posY = 300\<rparr> \<lparr>width = 400, height = 200\<rparr>
       ''Package'' [exampleInner] None None False False None None None"

definition exampleGraph :: SprottyGraph where
  "exampleGraph =
     \<lparr>graph_type = ''graph'', graph_id = ''root'',
      graph_children =
        [exampleNode1, exampleNode2, examplePackage,
         Edge ''edge-3'' ''node1-out'' ''node2-in'' None,
         Edge ''edge-demo-1'' ''inner-out'' ''node2-in'' None,
         Edge ''edge-7'' ''inner-out'' ''node1-in1'' None]\<rparr>"

definition exampleModel :: GraphModel where
  "exampleModel = \<lparr>model = exampleGraph, edgeCounter = 0\<rparr>"

definition exampleListener :: CustomMouseListener where
  "exampleListener = \<lparr>graphModel = Some exampleModel, updateCallback = True\<rparr>"

text \<open>A parser for payloads without an \<open>svg\<close> element.\<close>

definition noSvg :: DomParser where
  "noSvg content = None"

section \<open>Port distribution along a side\<close>

lemma distributeAlongAxis_single:
  "distributeAlongAxis index 1 L = (L - 16) / 2"
  by (simp add: distributeAlongAxis_def PORT_SIZE_def)

lemma distributeAlongAxis_many:
  "tot \<noteq> 1 \<Longrightarrow> distributeAlongAxis index tot L = index * (L - 16) / (tot - 1)"
  by (simp add: distributeAlongAxis_def PORT_SIZE_def Let_def)

text \<open>
  Claim C1. For every side length \<open>L\<close>, every number \<open>t \<ge> 1\<close> of ports on the side
  and every index \<open>i < t\<close>, \<open>distributeAlongAxis\<close> returns \<open>(L - 16) / 2\<close> when
  \<open>t = 1\<close> and \<open>i * (L - 16) / (t - 1)\<close> otherwise. For a node of height 60 with three
  ports on its left side, \<open>calculatePortPosition\<close> places them at \<open>x = -8\<close> with the
  \<open>y\<close> offsets 0, 22 and 44.
\<close>

theorem distributeAlongAxis_contract:
  assumes "1 \<le> t" and "i < t"
  shows "distributeAlongAxis (real i) (real t) L =
           (if t = 1 then (L - 16) / 2 else real i * (L - 16) / (real t - 1))
         \<and> calculatePortPosition Left 0 3 \<lparr>width = w, height = 60\<rparr> = \<lparr>posX = - 8, posY = 0\<rparr>
         \<and> calculatePortPosition Left 1 3 \<lparr>width = w, height = 60\<rparr> = \<lparr>posX = - 8, posY = 22\<rparr>
         \<and> calculatePortPosition Left 2 3 \<lparr>width = w, height = 60\<rparr> = \<lparr>posX = - 8, posY = 44\<rparr>"
proof -
  have general: "distributeAlongAxis (real i) (real t) L =
           (if t = 1 then (L - 16) / 2 else real i * (L - 16) / (real t - 1))"
  proof (cases "t = 1")
    case True
    then show ?thesis by (simp add: distributeAlongAxis_single)
  next
    case False
    then have "real t \<noteq> 1" by simp
    then show ?thesis using False by (simp add: distributeAlongAxis_many)
  qed
  have three: "distributeAlongAxis 0 3 60 = 0" "distributeAlongAxis 1 3 60 = 22"
    "distributeAlongAxis 2 3 60 = 44"
    by (simp_all add: distributeAlongAxis_many)
  show ?thesis using general three by (simp add: PORT_OFFSET_def)
qed

theorem distributeAlongAxis_contract_witness:
  "(1::nat) \<le> 3 \<and> (2::nat) < 3
   \<and> distributeAlongAxis (real 2) (real 3) 100 = 84
   \<and> calculatePortPosition Left 1 3 \<lparr>width = 120, height = 60\<rparr> = \<lparr>posX = - 8, posY = 22\<rparr>"
proof -
  have a: "(1::nat) \<le> 3" and b: "(2::nat) < 3" by simp_all
  show ?thesis
    using distributeAlongAxis_contract [OF a b, of 100 120] by simp
qed

text \<open>
  With a side shorter than the port (\<open>L < 16\<close>) the usable length is negative, and two
  ports on such a side are placed in decreasing order.
\<close>

theorem distributeAlongAxis_short_side_counterexample:
  "\<not> distributeAlongAxis (real 0) (real 2) 0 \<le> distributeAlongAxis (real 1) (real 2) 0"
  by (simp add: distributeAlongAxis_def PORT_SIZE_def)

text \<open>
  Claim C9, amended. For every number \<open>t \<ge> 1\<close> of ports and all indices
  \<open>i \<le> j < t\<close>: when the side length is at least the port size (\<open>16 \<le> L\<close>), or
  when \<open>t = 1\<close>, the offset at \<open>i\<close> is at most the offset at \<open>j\<close>; when \<open>L < 16\<close> and
  \<open>i < j\<close>, the offset at \<open>j\<close> is strictly smaller than the offset at \<open>i\<close>; and for
  \<open>t = 1\<close> the function returns the centering value \<open>(L - 16) / 2\<close> for every \<open>L\<close>.
\<close>

theorem distributeAlongAxis_monotone:
  assumes "1 \<le> t" and "i \<le> j" and "j < t"
  shows "(16 \<le> L \<or> t = 1 \<longrightarrow>
            distributeAlongAxis (real i) (real t) L \<le> distributeAlongAxis (real j) (real t) L)
         \<and> (L < 16 \<longrightarrow> i < j \<longrightarrow>
            distributeAlongAxis (real j) (real t) L < distributeAlongAxis (real i) (real t) L)
         \<and> distributeAlongAxis (real i) (real 1) L = (L - 16) / 2"
proof (cases "t = 1")
  case True
  with assms have "i = 0" "j = 0" by simp_all
  with True show ?thesis by (simp add: distributeAlongAxis_single)
next
  case False
  with assms have pos: "0 < real t - 1" by simp
  have neq: "real t \<noteq> 1" using False by simp
  have le: "real i \<le> real j" using assms by simp
  have up: "distributeAlongAxis (real i) (real t) L \<le> distributeAlongAxis (real j) (real t) L"
    if "16 \<le> L"
  proof -
    have "real i * (L - 16) \<le> real j * (L - 16)"
      using le that by (intro mult_right_mono) simp_all
    then have "real i * (L - 16) / (real t - 1) \<le> real j * (L - 16) / (real t - 1)"
      using pos by (simp add: divide_right_mono)
    then show ?thesis by (simp add: distributeAlongAxis_many [OF neq])
  qed
  have down: "distributeAlongAxis (real j) (real t) L < distributeAlongAxis (real i) (real t) L"
    if "L < 16" and "i < j"
  proof -
    have "real i < real j" using that by simp
    then have "real j * (L - 16) < real i * (L - 16)"
      using that by (intro mult_strict_right_mono_neg) simp_all
    then have "real j * (L - 16) / (real t - 1) < real i * (L - 16) / (real t - 1)"
      using pos by (simp add: divide_strict_right_mono)
    then show ?thesis by (simp add: distributeAlongAxis_many [OF neq])
  qed
  show ?thesis using up down False by (simp add: distributeAlongAxis_single)
qed

theorem distributeAlongAxis_monotone_witness:
  "(1::nat) \<le> 3 \<and> (1::nat) \<le> 2 \<and> (2::nat) < 3
   \<and> distributeAlongAxis (real 1) (real 3) 60 \<le> distributeAlongAxis (real 2) (real 3) 60
   \<and> distributeAlongAxis (real 2) (real 3) 10 < distributeAlongAxis (real 1) (real 3) 10
   \<and> distributeAlongAxis (real 1) (real 1) 60 = 22"
proof -
  have a: "(1::nat) \<le> 3" and b: "(1::nat) \<le> 2" and c: "(2::nat) < 3" by simp_all
  show ?thesis
    using distributeAlongAxis_monotone [OF a b c, of 60] distributeAlongAxis_monotone [OF a b c, of 10]
    by simp
qed

section \<open>The neutral band of the rotation\<close>








section \<open>Adding edges\<close>

lemma ownerOfPort_append_edge:
  "is_Edge e \<Longrightarrow> ownerOfPort pid (cs @ [e]) = ownerOfPort pid cs"
  by (induction cs) auto

lemma extractNodeId_addEdge:
  "extractNodeId (snd (addEdge st s t)) pid = extractNodeId st pid"
  by (auto simp: addEdge_def extractNodeId_def Let_def ownerOfPort_append_edge)

lemma validateEdge_invalid_iff:
  "\<not> valid (validateEdge st s t) \<longleftrightarrow>
     extractNodeId st s = extractNodeId st t
     \<or> list_ex (\<lambda>child. is_Edge child \<and> sourceId child = s \<and> targetId child = t)
          (graph_children (model st))"
  by (simp add: validateEdge_def Let_def)

lemma addEdge_invalid:
  "\<not> valid (validateEdge st s t) \<Longrightarrow>
   snd (addEdge st s t) = st \<and> \<not> success (fst (addEdge st s t))"
  by (simp add: addEdge_def Let_def)

lemma addEdge_valid:
  "valid (validateEdge st s t) \<Longrightarrow>
   addEdge st s t =
     (\<lparr>success = True, message = ''Edge created: '' @ s @ '' '' @ arrow @ '' '' @ t\<rparr>,
      st\<lparr>edgeCounter := Suc (edgeCounter st),
         model := (model st)\<lparr>graph_children := graph_children (model st)
            @ [Edge (''edge-'' @ show_nat (Suc (edgeCounter st))) s t None]\<rparr>\<rparr>)"
  by (simp add: addEdge_def Let_def)

lemma success_iff_valid: "success (fst (addEdge st s t)) \<longleftrightarrow> valid (validateEdge st s t)"
  by (simp add: addEdge_def Let_def)

text \<open>The owner of a port as the source finds it: the first top-level process or vector
  node with a child of that id, else the text before the first hyphen.\<close>

lemma extractNodeId_find:
  "extractNodeId st pid =
     (case find (\<lambda>child. is_Node child \<and> (kind child = ProcessNode \<or> kind child = SvgNode)
                    \<and> (\<exists>port\<in>set (children child). elem_id port = pid))
             (graph_children (model st)) of
        Some node \<Rightarrow> elem_id node
      | None \<Rightarrow> takeWhile (\<lambda>c. c \<noteq> CHR ''-'') pid)"
proof -
  have "ownerOfPort pid cs =
          map_option elem_id
            (find (\<lambda>child. is_Node child \<and> (kind child = ProcessNode \<or> kind child = SvgNode)
                    \<and> (\<exists>port\<in>set (children child). elem_id port = pid)) cs)" for cs
    by (induction cs) (auto simp: list_ex_iff)
  then show ?thesis by (simp add: extractNodeId_def split: option.splits)
qed

lemma exampleNode1_eq:
  "exampleNode1 =
     Node ProcessNode ''node1'' \<lparr>posX = 100, posY = 100\<rparr> \<lparr>width = 120, height = 60\<rparr> ''Source''
       [Port ''node1-in1'' \<lparr>posX = - 8, posY = 0\<rparr> \<lparr>width = 16, height = 16\<rparr>
          Input Circle (Some Left) None None None,
        Port ''node1-in2'' \<lparr>posX = - 8, posY = 44\<rparr> \<lparr>width = 16, height = 16\<rparr>
          Input Circle (Some Left) None None None,
        Port ''node1-out'' \<lparr>posX = 112, posY = 22\<rparr> \<lparr>width = 16, height = 16\<rparr>
          Output Circle (Some Right) None None None]
       None None False False None (Some 0) None"
  by (simp add: exampleNode1_def createNodeWithPorts_def examplePort_def orEmpty_def
      distributeAlongAxis_def PORT_SIZE_def PORT_OFFSET_def Let_def)

lemma exampleNode2_eq:
  "exampleNode2 =
     Node ProcessNode ''node2'' \<lparr>posX = 300, posY = 100\<rparr> \<lparr>width = 120, height = 60\<rparr> ''Sink''
       [Port ''node2-in'' \<lparr>posX = - 8, posY = 22\<rparr> \<lparr>width = 16, height = 16\<rparr>
          Input Circle (Some Left) None None None]
       None None False False None (Some 360) None"
  by (simp add: exampleNode2_def createNodeWithPorts_def examplePort_def orEmpty_def
      distributeAlongAxis_def PORT_SIZE_def PORT_OFFSET_def Let_def)

lemma example_owners:
  "extractNodeId exampleModel ''node1-in1'' = ''node1''"
  "extractNodeId exampleModel ''node1-in2'' = ''node1''"
  "extractNodeId exampleModel ''node1-out'' = ''node1''"
  "extractNodeId exampleModel ''node2-in'' = ''node2''"
  "extractNodeId exampleModel ''inner-out'' = ''inner''"
  "extractNodeId exampleModel ''inner-a'' = ''inner''"
  by (simp_all add: extractNodeId_def exampleModel_def exampleGraph_def exampleNode1_eq
      exampleNode2_eq examplePackage_def)

text \<open>
  Claim C3. Whenever the two port ids resolve to the same node id, \<open>addEdge\<close> returns
  \<open>success = false\<close> with the reason "Cannot connect a node to itself" and leaves the
  state as it was. The statement does not look at the direction of either port.
\<close>

theorem addEdge_rejects_same_node:
  assumes "extractNodeId st s = extractNodeId st t"
  shows "addEdge st s t = (\<lparr>success = False, message = ''Cannot connect a node to itself''\<rparr>, st)"
  using assms by (simp add: addEdge_def validateEdge_def Let_def)

theorem addEdge_rejects_same_node_witness:
  "extractNodeId exampleModel ''node1-in1'' = extractNodeId exampleModel ''node1-in2''
   \<and> addEdge exampleModel ''node1-in1'' ''node1-in2''
       = (\<lparr>success = False, message = ''Cannot connect a node to itself''\<rparr>, exampleModel)
   \<and> addEdge newGraphModel ''a-out'' ''a-in''
       = (\<lparr>success = False, message = ''Cannot connect a node to itself''\<rparr>, newGraphModel)"
proof -
  have h: "extractNodeId exampleModel ''node1-in1'' = extractNodeId exampleModel ''node1-in2''"
    by (simp add: example_owners)
  have h0: "extractNodeId newGraphModel ''a-out'' = extractNodeId newGraphModel ''a-in''"
    by (simp add: extractNodeId_def newGraphModel_def createInitialModel_def)
  show ?thesis
    using h addEdge_rejects_same_node [OF h] addEdge_rejects_same_node [OF h0] by simp
qed

text \<open>
  Claim C10. A call of \<open>addEdge\<close> whose validation fails (the two ports resolve to one
  node, or an edge with the same source and target is present) returns
  \<open>success = false\<close> and leaves the whole state, children and counter, as it was. So
  after any number of failing calls the state is the one before them, and a later call
  returns what it would have returned without them.
\<close>

theorem addEdge_failure_keeps_state:
  assumes "\<forall>(s', t')\<in>set calls.
             extractNodeId st s' = extractNodeId st t'
             \<or> list_ex (\<lambda>child. is_Edge child \<and> sourceId child = s' \<and> targetId child = t')
                  (graph_children (model st))"
  shows "snd (addEdges st calls) = st
         \<and> (\<forall>r\<in>set (fst (addEdges st calls)). \<not> success r)
         \<and> length (fst (addEdges st calls)) = length calls
         \<and> addEdge (snd (addEdges st calls)) s t = addEdge st s t"
proof -
  have "snd (addEdges st calls) = st \<and> (\<forall>r\<in>set (fst (addEdges st calls)). \<not> success r)
        \<and> length (fst (addEdges st calls)) = length calls"
    using assms
  proof (induction calls)
    case Nil
    then show ?case by simp
  next
    case (Cons c calls)
    obtain s' t' where c: "c = (s', t')" by (cases c)
    from Cons.prems c have "\<not> valid (validateEdge st s' t')"
      by (simp add: validateEdge_invalid_iff)
    then have same: "snd (addEdge st s' t') = st" and fail: "\<not> success (fst (addEdge st s' t'))"
      using addEdge_invalid by blast+
    from Cons have IH: "snd (addEdges st calls) = st
        \<and> (\<forall>r\<in>set (fst (addEdges st calls)). \<not> success r)
        \<and> length (fst (addEdges st calls)) = length calls"
      by simp
    show ?case using c same fail IH
      by (cases "addEdge st s' t'"; cases "addEdges st calls") auto
  qed
  then show ?thesis by simp
qed

theorem addEdge_failure_keeps_state_witness:
  "snd (addEdges exampleModel [(''node1-out'', ''node2-in''), (''node1-in1'', ''node1-out''),
                               (''node1-out'', ''node2-in'')]) = exampleModel
   \<and> addEdge (snd (addEdges exampleModel [(''node1-out'', ''node2-in''),
          (''node1-in1'', ''node1-out''), (''node1-out'', ''node2-in'')])) ''node1-out'' ''inner-a''
      = addEdge exampleModel ''node1-out'' ''inner-a''"
proof -
  have h: "\<forall>(s', t')\<in>set [(''node1-out'', ''node2-in''), (''node1-in1'', ''node1-out''),
                               (''node1-out'', ''node2-in'')].
             extractNodeId exampleModel s' = extractNodeId exampleModel t'
             \<or> list_ex (\<lambda>child. is_Edge child \<and> sourceId child = s' \<and> targetId child = t')
                  (graph_children (model exampleModel))"
    by (simp add: example_owners) (simp add: exampleModel_def exampleGraph_def)
  show ?thesis
    using addEdge_failure_keeps_state [OF h, of "''node1-out''" "''inner-a''"] by simp
qed

text \<open>A pair of ports of one node is rejected by the first call already.\<close>

theorem addEdge_twice_counterexample:
  "\<not> success (fst (addEdge newGraphModel ''node1-out'' ''node1-in''))"
  by (simp add: addEdge_def validateEdge_def extractNodeId_def newGraphModel_def
      createInitialModel_def Let_def)

text \<open>
  Claim C2, amended. When the first call of \<open>addEdge\<close> with a pair succeeds, that is,
  when the pair passes validation (the two ports resolve to different nodes and no edge
  with this source and target is present), a second call with the same pair returns
  \<open>success = false\<close> with the message "Edge already exists" as a result object, and the
  number of edges after the two calls is one more than before them.
\<close>

theorem addEdge_twice:
  assumes "success (fst (addEdge st s t))"
  shows "addEdge (snd (addEdge st s t)) s t
           = (\<lparr>success = False, message = ''Edge already exists''\<rparr>, snd (addEdge st s t))
         \<and> edgeCount (snd (addEdge (snd (addEdge st s t)) s t)) = Suc (edgeCount st)"
proof -
  from assms have v: "valid (validateEdge st s t)" by (simp add: success_iff_valid)
  then have ne: "extractNodeId st s \<noteq> extractNodeId st t"
    using validateEdge_invalid_iff by blast
  let ?st1 = "snd (addEdge st s t)"
  have ne1: "extractNodeId ?st1 s \<noteq> extractNodeId ?st1 t"
    using ne by (simp add: extractNodeId_addEdge)
  have ex: "list_ex (\<lambda>child. is_Edge child \<and> sourceId child = s \<and> targetId child = t)
          (graph_children (model ?st1))"
    using v by (simp add: addEdge_valid)
  have a: "addEdge ?st1 s t = (\<lparr>success = False, message = ''Edge already exists''\<rparr>, ?st1)"
    using ne1 ex by (simp add: addEdge_def validateEdge_def Let_def)
  have "edgeCount (snd (addEdge ?st1 s t)) = Suc (edgeCount st)"
    using a v by (simp add: addEdge_valid edgeCount_def)
  with a show ?thesis by simp
qed

theorem addEdge_twice_witness:
  "success (fst (addEdge exampleModel ''node1-out'' ''inner-a''))
   \<and> \<not> success (fst (addEdge (snd (addEdge exampleModel ''node1-out'' ''inner-a''))
                      ''node1-out'' ''inner-a''))
   \<and> message (fst (addEdge (snd (addEdge exampleModel ''node1-out'' ''inner-a''))
                      ''node1-out'' ''inner-a'')) = ''Edge already exists''
   \<and> edgeCount exampleModel = 3
   \<and> edgeCount (snd (addEdge (snd (addEdge exampleModel ''node1-out'' ''inner-a''))
                      ''node1-out'' ''inner-a'')) = 4"
proof -
  have v: "valid (validateEdge exampleModel ''node1-out'' ''inner-a'')"
    by (simp add: validateEdge_def example_owners Let_def)
      (simp add: exampleModel_def exampleGraph_def exampleNode1_eq exampleNode2_eq
        examplePackage_def)
  then have h: "success (fst (addEdge exampleModel ''node1-out'' ''inner-a''))"
    by (simp add: success_iff_valid)
  have c: "edgeCount exampleModel = 3"
    by (simp add: edgeCount_def exampleModel_def exampleGraph_def exampleNode1_eq
        exampleNode2_eq examplePackage_def)
  show ?thesis using h c addEdge_twice [OF h] by auto
qed


section \<open>Edge numbers after a bulk load\<close>

lemma digitValue_digitChar: "d < 10 \<Longrightarrow> digitValue (digitChar d) = d"
  by (simp add: digitValue_def digitChar_def)

lemma isDigit_digitChar: "d < 10 \<Longrightarrow> isDigit (digitChar d)"
  by (simp add: isDigit_def digitChar_def)

lemma show_nat_digits: "\<forall>c\<in>set (show_nat n). isDigit c"
proof (induction n rule: show_nat.induct)
  case (1 n)
  show ?case
  proof (cases "n < 10")
    case True
    then show ?thesis by (subst show_nat.simps) (simp add: isDigit_digitChar)
  next
    case False
    then show ?thesis using 1 by (subst show_nat.simps) (simp add: isDigit_digitChar)
  qed
qed

lemma show_nat_nonempty: "show_nat n \<noteq> []"
  by (subst show_nat.simps) simp

lemma parseInt_snoc: "parseInt (ds @ [c]) = 10 * parseInt ds + digitValue c"
  by (simp add: parseInt_def)

lemma parseInt_show_nat: "parseInt (show_nat n) = n"
proof (induction n rule: show_nat.induct)
  case (1 n)
  show ?case
  proof (cases "n < 10")
    case True
    then show ?thesis
      by (subst show_nat.simps) (simp add: parseInt_def digitValue_digitChar)
  next
    case False
    then have "parseInt (show_nat (n div 10)) = n div 10" using 1 by simp
    then show ?thesis using False
      by (subst show_nat.simps) (simp add: parseInt_snoc digitValue_digitChar)
  qed
qed

lemma matchEdgeNumber_canonical: "matchEdgeNumber (''edge-'' @ show_nat n) = Some (show_nat n)"
proof -
  have tw: "takeWhile isDigit (show_nat n) = show_nat n"
    using show_nat_digits by (simp add: takeWhile_eq_all_conv)
  show ?thesis by (simp add: Let_def tw show_nat_nonempty)
qed

lemma edgeNumber_canonical: "edgeNumber (''edge-'' @ show_nat n) = Some n"
  unfolding edgeNumber_def matchEdgeNumber_canonical by (simp add: parseInt_show_nat)

lemma show_nat_8: "show_nat 8 = ''8''"
  by code_simp

text \<open>The \<open>reduce\<close> with \<open>Math.max\<close> from 0 is the maximum of the numbers found.\<close>

lemma foldl_max_Max:
  "foldl (\<lambda>mx a. case g a of Some n \<Rightarrow> max mx n | None \<Rightarrow> mx) (b::nat) as
     = Max (insert b {n. \<exists>a\<in>set as. g a = Some n})"
proof (induction as arbitrary: b)
  case Nil
  then show ?case by simp
next
  case (Cons a as)
  have fin: "finite {n. \<exists>a\<in>set as. g a = Some n}"
  proof -
    have "{n. \<exists>a\<in>set as. g a = Some n} \<subseteq> (\<lambda>a. the (g a)) ` set as" by force
    then show ?thesis using finite_surj by blast
  qed
  show ?case
  proof (cases "g a")
    case None
    then have "{n. \<exists>c\<in>set (a # as). g c = Some n} = {n. \<exists>c\<in>set as. g c = Some n}" by auto
    then show ?thesis using None Cons by simp
  next
    case (Some m)
    then have eq: "{n. \<exists>c\<in>set (a # as). g c = Some n} = insert m {n. \<exists>c\<in>set as. g c = Some n}"
      by auto
    have "Max (insert (max b m) {n. \<exists>c\<in>set as. g c = Some n})
            = Max (insert b (insert m {n. \<exists>c\<in>set as. g c = Some n}))"
    proof (cases "{n. \<exists>c\<in>set as. g c = Some n} = {}")
      case True
      then show ?thesis by (simp add: max.commute)
    next
      case False
      then show ?thesis using fin by (simp add: max.assoc)
    qed
    then show ?thesis using Some Cons eq by simp
  qed
qed

lemma maxEdgeId_Max:
  "maxEdgeId cs = Max (insert 0 {n. \<exists>e\<in>set cs. is_Edge e \<and> edgeNumber (elem_id e) = Some n})"
proof -
  have "{n. \<exists>e\<in>set (filter is_Edge cs). edgeNumber (elem_id e) = Some n}
          = {n. \<exists>e\<in>set cs. is_Edge e \<and> edgeNumber (elem_id e) = Some n}" by auto
  then show ?thesis
    unfolding maxEdgeId_def
    using foldl_max_Max [of "\<lambda>e. edgeNumber (elem_id e)" 0 "filter is_Edge cs"]
    by simp
qed

lemma loadFromJson_edgeCounter:
  "edgeCounter (snd (loadFromJson parser st tree)) = maxEdgeId (graph_children tree)"
  by (simp add: loadFromJson_def split: prod.splits)

text \<open>The repair of the port positions does nothing to a tree whose top-level process and
  vector nodes carry no rotation outside the neutral band.\<close>

lemma recalculate_neutral:
  assumes "\<forall>node\<in>set cs. is_Node node \<and> (kind node = SvgNode \<or> kind node = ProcessNode)
             \<longrightarrow> neutralRotation (rotation node)"
  shows "recalculatePortPositionsForRotatedNodes parser cs = (None, cs)"
  using assms
proof (induction cs)
  case Nil
  then show ?case by simp
next
  case (Cons node cs)
  have "recalculateNode parser node = (None, node)"
    using Cons.prems by (auto simp: recalculateNode_def neutralRotation_def split: option.splits)
  then show ?case using Cons by simp
qed

lemma example_neutral:
  "\<forall>node\<in>set (graph_children exampleGraph).
     is_Node node \<and> (kind node = SvgNode \<or> kind node = ProcessNode)
     \<longrightarrow> neutralRotation (rotation node)"
  by (simp add: exampleGraph_def exampleNode1_eq exampleNode2_eq examplePackage_def
      neutralRotation_def)

lemma example_maxEdgeId: "maxEdgeId (graph_children exampleGraph) = 7"
  by (simp add: maxEdgeId_def exampleGraph_def exampleNode1_eq exampleNode2_eq
      examplePackage_def edgeNumber_def isDigit_def parseInt_def digitValue_def)

lemma example_loaded:
  "loadFromJson noSvg newGraphModel exampleGraph = (None, exampleModel\<lparr>edgeCounter := 7\<rparr>)"
  using recalculate_neutral [OF example_neutral, of noSvg]
  by (simp add: loadFromJson_def example_maxEdgeId exampleModel_def newGraphModel_def)

text \<open>
  Claim C4. After \<open>loadFromJson\<close> the counter is the maximum of the numbers read from the
  ids of the top-level edges (0 when there is none), where the number of an id is what
  \<open>/edge-(\d+)/\<close> and \<open>parseInt\<close> read from it, \<open>n\<close> for the id \<open>edge-n\<close>. The next
  successful \<open>addEdge\<close> appends an edge whose id is \<open>edge-\<close> followed by that maximum
  plus one: \<open>edge-8\<close> when the maximum is 7.
\<close>

theorem loadFromJson_next_edge_id:
  assumes "success (fst (addEdge (snd (loadFromJson parser st0 tree)) s t))"
  shows "edgeCounter (snd (loadFromJson parser st0 tree))
           = Max (insert 0 {n. \<exists>edge\<in>set (graph_children tree).
                                 is_Edge edge \<and> edgeNumber (elem_id edge) = Some n})
         \<and> graph_children (model (snd (addEdge (snd (loadFromJson parser st0 tree)) s t)))
           = graph_children (model (snd (loadFromJson parser st0 tree)))
               @ [Edge (''edge-'' @ show_nat (Suc (edgeCounter (snd (loadFromJson parser st0 tree)))))
                    s t None]
         \<and> (edgeCounter (snd (loadFromJson parser st0 tree)) = 7 \<longrightarrow>
              elem_id (last (graph_children
                 (model (snd (addEdge (snd (loadFromJson parser st0 tree)) s t))))) = ''edge-8'')
         \<and> edgeNumber (''edge-'' @ show_nat n) = Some n"
proof -
  let ?st = "snd (loadFromJson parser st0 tree)"
  have counter: "edgeCounter ?st
           = Max (insert 0 {n. \<exists>edge\<in>set (graph_children tree).
                                 is_Edge edge \<and> edgeNumber (elem_id edge) = Some n})"
    by (simp add: loadFromJson_edgeCounter maxEdgeId_Max)
  from assms have v: "valid (validateEdge ?st s t)" by (simp add: success_iff_valid)
  have appended: "graph_children (model (snd (addEdge ?st s t)))
           = graph_children (model ?st) @ [Edge (''edge-'' @ show_nat (Suc (edgeCounter ?st))) s t None]"
    by (simp add: addEdge_valid [OF v])
  have eight: "elem_id (last (graph_children (model (snd (addEdge ?st s t))))) = ''edge-8''"
    if "edgeCounter ?st = 7"
  proof -
    have "Suc (edgeCounter ?st) = 8" using that by simp
    then show ?thesis unfolding appended by (simp add: show_nat_8)
  qed
  show ?thesis using counter appended eight edgeNumber_canonical by blast
qed

theorem loadFromJson_next_edge_id_witness:
  "success (fst (addEdge (snd (loadFromJson noSvg newGraphModel exampleGraph))
                   ''node1-out'' ''inner-a''))
   \<and> edgeCounter (snd (loadFromJson noSvg newGraphModel exampleGraph)) = 7
   \<and> elem_id (last (graph_children (model (snd (addEdge
          (snd (loadFromJson noSvg newGraphModel exampleGraph)) ''node1-out'' ''inner-a'')))))
       = ''edge-8''"
proof -
  have v: "valid (validateEdge (exampleModel\<lparr>edgeCounter := 7\<rparr>) ''node1-out'' ''inner-a'')"
    by (simp add: validateEdge_def extractNodeId_def exampleModel_def exampleGraph_def
        exampleNode1_eq exampleNode2_eq examplePackage_def exampleInner_def Let_def)
  then have h: "success (fst (addEdge (snd (loadFromJson noSvg newGraphModel exampleGraph))
                   ''node1-out'' ''inner-a''))"
    by (simp add: example_loaded success_iff_valid)
  have c: "edgeCounter (snd (loadFromJson noSvg newGraphModel exampleGraph)) = 7"
    by (simp add: example_loaded)
  show ?thesis using h c loadFromJson_next_edge_id [OF h] by blast
qed

text \<open>
  Claim C8. For a tree whose top-level process and vector nodes carry no rotation outside
  the neutral band (absent, 0, 360 or -360), \<open>loadFromJson\<close> throws nothing and
  \<open>getModel\<close> then returns the tree that was loaded, equal in every field. Nodes inside
  packages are never touched by the load, whatever their rotation.
\<close>

theorem loadFromJson_roundtrip:
  assumes "\<forall>node\<in>set (graph_children tree).
             is_Node node \<and> (kind node = SvgNode \<or> kind node = ProcessNode)
             \<longrightarrow> neutralRotation (rotation node)"
  shows "fst (loadFromJson parser st tree) = None
         \<and> getModel (snd (loadFromJson parser st tree)) = tree"
  using recalculate_neutral [OF assms] by (simp add: loadFromJson_def getModel_def)

theorem loadFromJson_roundtrip_witness:
  "neutralRotation (rotation exampleNode1) \<and> neutralRotation (rotation exampleNode2)
   \<and> fst (loadFromJson noSvg newGraphModel (getModel exampleModel)) = None
   \<and> getModel (snd (loadFromJson noSvg newGraphModel (getModel exampleModel)))
       = getModel exampleModel"
proof -
  have g: "getModel exampleModel = exampleGraph" by (simp add: getModel_def exampleModel_def)
  have n: "neutralRotation (rotation exampleNode1) \<and> neutralRotation (rotation exampleNode2)"
    by (simp add: exampleNode1_eq exampleNode2_eq neutralRotation_def)
  show ?thesis
    using n loadFromJson_roundtrip [OF example_neutral, of noSvg newGraphModel] by (simp add: g)
qed


section \<open>Resizing a node\<close>

lemma placePorts_length [simp]: "length (placePorts sd n sz refs i cs) = length cs"
  by (induction refs arbitrary: i cs) simp_all

lemma placePorts_nth:
  assumes "distinct refs" and "\<forall>r\<in>set refs. r < length cs" and "k < length cs"
  shows "placePorts sd n sz refs i cs ! k =
           (if k \<in> set refs
            then moved (calculatePortPosition sd (real (i + placeOf refs k)) (real n) sz) (cs ! k)
            else cs ! k)"
  using assms
proof (induction refs arbitrary: i cs)
  case Nil
  then show ?case by simp
next
  case (Cons r refs)
  let ?cs1 = "cs[r := moved (calculatePortPosition sd (real i) (real n) sz) (cs ! r)]"
  have step: "placePorts sd n sz (r # refs) i cs = placePorts sd n sz refs (Suc i) ?cs1"
    by (simp add: moved_def)
  have d: "distinct refs" and notin: "r \<notin> set refs" using Cons.prems by simp_all
  have bound: "\<forall>q\<in>set refs. q < length ?cs1" using Cons.prems by simp
  have k1: "k < length ?cs1" using Cons.prems by simp
  have IH: "placePorts sd n sz refs (Suc i) ?cs1 ! k =
           (if k \<in> set refs
            then moved (calculatePortPosition sd (real (Suc i + placeOf refs k)) (real n) sz) (?cs1 ! k)
            else ?cs1 ! k)"
    using Cons.IH [OF d bound k1] .
  show ?case
  proof (cases "k = r")
    case True
    then show ?thesis using IH notin Cons.prems by (simp add: step placeOf_def del: placePorts.simps)
  next
    case False
    then show ?thesis using IH by (simp add: step placeOf_def del: placePorts.simps)
  qed
qed

lemma portsPerSide_distinct: "distinct (portsPerSide cs sd)"
  by (simp add: portsPerSide_def)

lemma portsPerSide_mem:
  "k \<in> set (portsPerSide cs sd) \<longleftrightarrow> k < length cs \<and> is_Port (cs ! k) \<and> side (cs ! k) = Some sd"
  by (auto simp: portsPerSide_def)

text \<open>One pass of the outer loop: the references were taken from \<open>cs\<close>, the pass runs on
  the list \<open>acc\<close> the earlier passes have left.\<close>

lemma pass_nth:
  assumes "length acc = length cs" and "k < length cs"
  shows "placePorts sd (length (portsPerSide cs sd)) sz (portsPerSide cs sd) 0 acc ! k =
           (if is_Port (cs ! k) \<and> side (cs ! k) = Some sd
            then moved (calculatePortPosition sd (real (placeOf (portsPerSide cs sd) k))
                          (real (length (portsPerSide cs sd))) sz) (acc ! k)
            else acc ! k)"
proof -
  have b: "\<forall>r\<in>set (portsPerSide cs sd). r < length acc"
    using assms by (simp add: portsPerSide_mem)
  have k: "k < length acc" using assms by simp
  show ?thesis
    using placePorts_nth [OF portsPerSide_distinct b k, of sd "length (portsPerSide cs sd)" sz 0] assms
    by (simp add: portsPerSide_mem)
qed

lemma repositionPorts_length [simp]: "length (repositionPorts sz cs) = length cs"
  by (simp add: repositionPorts_def)

lemma repositionPorts_nth:
  assumes "k < length cs"
  shows "repositionPorts sz cs ! k =
           (if is_Port (cs ! k) then
              (case side (cs ! k) of
                 None \<Rightarrow> cs ! k
               | Some sd \<Rightarrow> moved (calculatePortPosition sd (real (placeOf (portsPerSide cs sd) k))
                                     (real (length (portsPerSide cs sd))) sz) (cs ! k))
            else cs ! k)"
proof -
  let ?p = "\<lambda>sd acc. placePorts sd (length (portsPerSide cs sd)) sz (portsPerSide cs sd) 0 acc"
  let ?a1 = "?p Left cs"
  let ?a2 = "?p Right ?a1"
  let ?a3 = "?p Top ?a2"
  let ?a4 = "?p Bottom ?a3"
  have r: "repositionPorts sz cs = ?a4" by (simp add: repositionPorts_def)
  have n1: "?a1 ! k = (if is_Port (cs ! k) \<and> side (cs ! k) = Some Left
            then moved (calculatePortPosition Left (real (placeOf (portsPerSide cs Left) k))
                          (real (length (portsPerSide cs Left))) sz) (cs ! k)
            else cs ! k)"
    using pass_nth [of cs cs k Left sz] assms by simp
  have n2: "?a2 ! k = (if is_Port (cs ! k) \<and> side (cs ! k) = Some Right
            then moved (calculatePortPosition Right (real (placeOf (portsPerSide cs Right) k))
                          (real (length (portsPerSide cs Right))) sz) (?a1 ! k)
            else ?a1 ! k)"
    using pass_nth [of ?a1 cs k Right sz] assms by simp
  have n3: "?a3 ! k = (if is_Port (cs ! k) \<and> side (cs ! k) = Some Top
            then moved (calculatePortPosition Top (real (placeOf (portsPerSide cs Top) k))
                          (real (length (portsPerSide cs Top))) sz) (?a2 ! k)
            else ?a2 ! k)"
    using pass_nth [of ?a2 cs k Top sz] assms by simp
  have n4: "?a4 ! k = (if is_Port (cs ! k) \<and> side (cs ! k) = Some Bottom
            then moved (calculatePortPosition Bottom (real (placeOf (portsPerSide cs Bottom) k))
                          (real (length (portsPerSide cs Bottom))) sz) (?a3 ! k)
            else ?a3 ! k)"
    using pass_nth [of ?a3 cs k Bottom sz] assms by simp
  show ?thesis
  proof (cases "is_Port (cs ! k)")
    case False
    then show ?thesis unfolding r n4 n3 n2 n1 by simp
  next
    case True
    show ?thesis
    proof (cases "side (cs ! k)")
      case None
      then show ?thesis unfolding r n4 n3 n2 n1 using True by simp
    next
      case (Some sd)
      then show ?thesis unfolding r n4 n3 n2 n1 using True by (cases sd) simp_all
    qed
  qed
qed

lemma position_moved: "\<not> is_Edge e \<Longrightarrow> position (moved pos e) = pos"
  by (cases e) (simp_all add: moved_def)

lemma findNode_Some: "findNode nodeId cs = Some node \<Longrightarrow> is_Node node \<and> elem_id node = nodeId"
  by (induction nodeId cs rule: findNode.induct) (auto split: if_splits option.splits)

lemma modifyNode_None: "findNode nodeId cs = None \<Longrightarrow> modifyNode nodeId f cs = None"
  by (induction nodeId cs rule: findNode.induct) (auto split: if_splits option.splits)

text \<open>The rebuilt tree holds the changed node where the search found the node.\<close>

lemma modifyNode_Some:
  assumes "findNode nodeId cs = Some node" and "is_Node (f node)" and "elem_id (f node) = nodeId"
  shows "\<exists>cs'. modifyNode nodeId f cs = Some cs' \<and> findNode nodeId cs' = Some (f node)"
  using assms
proof (induction nodeId cs rule: findNode.induct)
  case (1 nodeId)
  then show ?case by simp
next
  case (2 nodeId k i p s n cs fh fv efh efv op r svg rest)
  show ?case
  proof (cases "i = nodeId")
    case True
    with 2 show ?thesis by (cases "f node") auto
  next
    case ne: False
    show ?thesis
    proof (cases "k = PackageNode")
      case True
      show ?thesis
      proof (cases "findNode nodeId cs")
        case None
        with 2 ne True show ?thesis by (auto simp: modifyNode_None)
      next
        case (Some a)
        with 2 ne True show ?thesis by auto
      qed
    next
      case False
      with 2 ne show ?thesis by auto
    qed
  qed
next
  case (3 nodeId i p s t sh sd l op r rest)
  then show ?case by auto
next
  case (4 nodeId i src tgt r rest)
  then show ?case by auto
qed

lemma resizeNode_fields:
  assumes "is_Node node"
  shows "is_Node (resizeNode w h node)" "elem_id (resizeNode w h node) = elem_id node"
    "elem_size (resizeNode w h node) = \<lparr>width = w, height = h\<rparr>"
    "children (resizeNode w h node) = repositionPorts \<lparr>width = w, height = h\<rparr> (children node)"
  using assms by (cases node; simp add: resizeNode_def Let_def)+

lemma updateNodeSize_found:
  assumes "findNode nodeId (graph_children (model st)) = Some node"
  shows "findNode nodeId (graph_children (model (updateNodeSize st nodeId w h)))
           = Some (resizeNode w h node)"
proof -
  have n: "is_Node node" "elem_id node = nodeId" using findNode_Some [OF assms] by simp_all
  obtain cs' where "modifyNode nodeId (resizeNode w h) (graph_children (model st)) = Some cs'"
    and "findNode nodeId cs' = Some (resizeNode w h node)"
    using modifyNode_Some [OF assms, of "resizeNode w h"] n by (auto simp: resizeNode_fields)
  then show ?thesis by (simp add: updateNodeSize_def)
qed

lemma updateNodeSize_missing:
  "findNode nodeId (graph_children (model st)) = None \<Longrightarrow> updateNodeSize st nodeId w h = st"
  by (simp add: updateNodeSize_def modifyNode_None)

text \<open>
  Claim C7. For every node the search of \<open>updateNodeSize\<close> finds, at the top level or
  inside packages, the call sets the size of the node to the new one and gives every
  port that has a side the position \<open>calculatePortPosition\<close> computes from the new
  size, the port's ordinal among the ports of its side and the number of those ports;
  a child that is not a port, and a port without a side, stay as they are. For a node
  with two ports on the left and one on the right resized to 200 by 100, the left
  ports are at \<open>x = -8\<close> with \<open>y = 0\<close> and \<open>y = 84\<close>, and the right port is at
  \<open>x = 192\<close>, \<open>y = 42\<close>.
\<close>

theorem updateNodeSize_repositions_ports:
  assumes "findNode nodeId (graph_children (model st)) = Some node"
  shows "\<exists>node'. findNode nodeId (graph_children (model (updateNodeSize st nodeId w h))) = Some node'
           \<and> elem_size node' = \<lparr>width = w, height = h\<rparr>
           \<and> length (children node') = length (children node)
           \<and> (\<forall>k<length (children node).
                 children node' ! k =
                   (if is_Port (children node ! k) then
                      (case side (children node ! k) of
                         None \<Rightarrow> children node ! k
                       | Some sd \<Rightarrow>
                           moved (calculatePortPosition sd
                                    (real (placeOf (portsPerSide (children node) sd) k))
                                    (real (length (portsPerSide (children node) sd)))
                                    \<lparr>width = w, height = h\<rparr>)
                             (children node ! k))
                    else children node ! k))
           \<and> (w = 200 \<and> h = 100 \<and> portsPerSide (children node) Left = [a, b]
                \<and> portsPerSide (children node) Right = [c] \<longrightarrow>
                position (children node' ! a) = \<lparr>posX = - 8, posY = 0\<rparr>
                \<and> position (children node' ! b) = \<lparr>posX = - 8, posY = 84\<rparr>
                \<and> position (children node' ! c) = \<lparr>posX = 192, posY = 42\<rparr>)"
proof -
  let ?cs = "children node"
  let ?node' = "resizeNode w h node"
  have n: "is_Node node" using findNode_Some [OF assms] by simp
  have found: "findNode nodeId (graph_children (model (updateNodeSize st nodeId w h))) = Some ?node'"
    by (rule updateNodeSize_found [OF assms])
  have sz: "elem_size ?node' = \<lparr>width = w, height = h\<rparr>" by (simp add: resizeNode_fields [OF n])
  have cs': "children ?node' = repositionPorts \<lparr>width = w, height = h\<rparr> ?cs"
    by (simp add: resizeNode_fields [OF n])
  have len: "length (children ?node') = length ?cs" by (simp add: cs')
  have each: "\<forall>k<length ?cs.
                 children ?node' ! k =
                   (if is_Port (?cs ! k) then
                      (case side (?cs ! k) of
                         None \<Rightarrow> ?cs ! k
                       | Some sd \<Rightarrow>
                           moved (calculatePortPosition sd
                                    (real (placeOf (portsPerSide ?cs sd) k))
                                    (real (length (portsPerSide ?cs sd)))
                                    \<lparr>width = w, height = h\<rparr>)
                             (?cs ! k))
                    else ?cs ! k)"
    by (simp add: cs' repositionPorts_nth)
  have scenario: "position (children ?node' ! a) = \<lparr>posX = - 8, posY = 0\<rparr>
                \<and> position (children ?node' ! b) = \<lparr>posX = - 8, posY = 84\<rparr>
                \<and> position (children ?node' ! c) = \<lparr>posX = 192, posY = 42\<rparr>"
    if w: "w = 200" and h: "h = 100" and l: "portsPerSide ?cs Left = [a, b]"
      and r: "portsPerSide ?cs Right = [c]"
  proof -
    have ab: "a \<noteq> b" using portsPerSide_distinct [of ?cs Left] l by simp
    have "a \<in> set (portsPerSide ?cs Left)" "b \<in> set (portsPerSide ?cs Left)"
      "c \<in> set (portsPerSide ?cs Right)" using l r by simp_all
    then have pa: "a < length ?cs" "is_Port (?cs ! a)" "side (?cs ! a) = Some Left"
      and pb: "b < length ?cs" "is_Port (?cs ! b)" "side (?cs ! b) = Some Left"
      and pc: "c < length ?cs" "is_Port (?cs ! c)" "side (?cs ! c) = Some Right"
      by (simp_all add: portsPerSide_mem)
    have ea: "\<not> is_Edge (?cs ! a)" and eb: "\<not> is_Edge (?cs ! b)" and ec: "\<not> is_Edge (?cs ! c)"
      using pa pb pc by (auto simp: element.disc_eq_case split: element.splits)
    have "children ?node' ! a =
            moved (calculatePortPosition Left 0 2 \<lparr>width = 200, height = 100\<rparr>) (?cs ! a)"
      using each pa l w h by (simp add: placeOf_def)
    moreover have "children ?node' ! b =
            moved (calculatePortPosition Left 1 2 \<lparr>width = 200, height = 100\<rparr>) (?cs ! b)"
      using each pb l w h ab by (simp add: placeOf_def)
    moreover have "children ?node' ! c =
            moved (calculatePortPosition Right 0 1 \<lparr>width = 200, height = 100\<rparr>) (?cs ! c)"
      using each pc r w h by (simp add: placeOf_def)
    ultimately show ?thesis
      using ea eb ec
      by (simp add: position_moved distributeAlongAxis_def PORT_SIZE_def PORT_OFFSET_def)
  qed
  show ?thesis using found sz len each scenario by blast
qed

lemma example_inner_found:
  "findNode ''inner'' (graph_children (model exampleModel)) = Some exampleInner"
  by (simp add: exampleModel_def exampleGraph_def exampleNode1_eq exampleNode2_eq
      examplePackage_def exampleInner_def)

lemma example_inner_sides:
  "portsPerSide (children exampleInner) Left = [0, 3]"
  "portsPerSide (children exampleInner) Right = [2]"
  by (simp_all add: portsPerSide_def exampleInner_def upt_rec)

theorem updateNodeSize_repositions_ports_witness:
  "findNode ''inner'' (graph_children (model exampleModel)) = Some exampleInner
   \<and> (\<exists>node'. findNode ''inner''
                 (graph_children (model (updateNodeSize exampleModel ''inner'' 200 100))) = Some node'
        \<and> elem_size node' = \<lparr>width = 200, height = 100\<rparr>
        \<and> position (children node' ! 0) = \<lparr>posX = - 8, posY = 0\<rparr>
        \<and> position (children node' ! 3) = \<lparr>posX = - 8, posY = 84\<rparr>
        \<and> position (children node' ! 2) = \<lparr>posX = 192, posY = 42\<rparr>
        \<and> children node' ! 1 = children exampleInner ! 1)"
proof -
  have len: "(1::nat) < length (children exampleInner)" by (simp add: exampleInner_def)
  have free: "is_Port (children exampleInner ! 1)" "side (children exampleInner ! 1) = None"
    by (simp_all add: exampleInner_def)
  from updateNodeSize_repositions_ports [OF example_inner_found, of 200 100 0 3 2]
  obtain node' where
    f: "findNode ''inner'' (graph_children (model (updateNodeSize exampleModel ''inner'' 200 100)))
          = Some node'"
    and s: "elem_size node' = \<lparr>width = 200, height = 100\<rparr>"
    and e: "\<forall>k<length (children exampleInner).
                 children node' ! k =
                   (if is_Port (children exampleInner ! k) then
                      (case side (children exampleInner ! k) of
                         None \<Rightarrow> children exampleInner ! k
                       | Some sd \<Rightarrow>
                           moved (calculatePortPosition sd
                                    (real (placeOf (portsPerSide (children exampleInner) sd) k))
                                    (real (length (portsPerSide (children exampleInner) sd)))
                                    \<lparr>width = 200, height = 100\<rparr>)
                             (children exampleInner ! k))
                    else children exampleInner ! k)"
    and p: "position (children node' ! 0) = \<lparr>posX = - 8, posY = 0\<rparr>
                \<and> position (children node' ! 3) = \<lparr>posX = - 8, posY = 84\<rparr>
                \<and> position (children node' ! 2) = \<lparr>posX = 192, posY = 42\<rparr>"
    using example_inner_sides by blast
  have "children node' ! 1 = children exampleInner ! 1" using e len free by simp
  then show ?thesis using example_inner_found f s p by blast
qed


section \<open>Rotating a node\<close>

lemma set_children_keeps:
  "elem_id (set_children cs e) = elem_id e" "rotation (set_children cs e) = rotation e"
  by (cases e; simp)+

lemma set_rotation_sets:
  "elem_id (set_rotation r e) = elem_id e" "rotation (set_rotation r e) = Some r"
  by (cases e; simp)+

text \<open>Repositioning the ports writes the children only.\<close>

lemma updateNodePortPositions_keeps:
  "elem_id (snd (updateNodePortPositions parser node)) = elem_id node"
  "rotation (snd (updateNodePortPositions parser node)) = rotation node"
  by (auto simp: updateNodePortPositions_def updateSvgNodePortPositions_def
      updateProcessNodePortPositions_def set_children_keeps split: option.splits prod.splits)

lemma findIndex_Some:
  "findIndex P as = Some k \<Longrightarrow> k < length as \<and> P (as ! k)"
  by (induction as arbitrary: k) (auto split: if_splits)

lemma findIndex_update:
  "findIndex P as = Some k \<Longrightarrow> P b \<Longrightarrow> findIndex P (as[k := b]) = Some k"
  by (induction as arbitrary: k) (auto split: if_splits)

lemma find_findIndex: "find P as = map_option ((!) as) (findIndex P as)"
  by (induction as) (auto simp: option.map_comp comp_def)

lemma storedRotation_Some:
  "storedRotation listener nodeId = Some r \<longleftrightarrow>
     (\<exists>gm k. graphModel listener = Some gm
        \<and> findIndex (\<lambda>child. elem_id child = nodeId) (graph_children (getModel gm)) = Some k
        \<and> rotation (graph_children (getModel gm) ! k) = Some r)"
  by (auto simp: storedRotation_def find_findIndex split: option.splits)

lemma rotateModelNode_step:
  assumes "storedRotation listener nodeId = Some r" and "updateCallback listener"
  shows "storedRotation (snd (rotateModelNode next parser listener nodeId)) nodeId = Some (next r)
         \<and> updateCallback (snd (rotateModelNode next parser listener nodeId))"
proof -
  from assms(1) obtain gm k where gm: "graphModel listener = Some gm"
    and k: "findIndex (\<lambda>child. elem_id child = nodeId) (graph_children (getModel gm)) = Some k"
    and r: "rotation (graph_children (getModel gm) ! k) = Some r"
    using storedRotation_Some by blast
  let ?cs = "graph_children (getModel gm)"
  let ?n = "snd (updateNodePortPositions parser (set_rotation (next r) (?cs ! k)))"
  have idn: "elem_id ?n = nodeId"
    using findIndex_Some [OF k] by (simp add: updateNodePortPositions_keeps set_rotation_sets)
  have rot: "rotation ?n = Some (next r)"
    by (simp add: updateNodePortPositions_keeps set_rotation_sets)
  have res: "snd (rotateModelNode next parser listener nodeId)
      = listener\<lparr>graphModel := Some (gm\<lparr>model := (model gm)\<lparr>graph_children := ?cs[k := ?n]\<rparr>\<rparr>)\<rparr>"
    using gm k r assms(2) by (simp add: rotateModelNode_def Let_def split: prod.splits)
  have k': "findIndex (\<lambda>child. elem_id child = nodeId) (?cs[k := ?n]) = Some k"
    using findIndex_update [OF k] idn by simp
  have "k < length ?cs" using findIndex_Some [OF k] by simp
  then show ?thesis
    unfolding res using k' rot assms(2)
    by (simp add: storedRotation_def find_findIndex getModel_def)
qed

lemma rotateRightNode_step:
  assumes "storedRotation listener nodeId = Some r" and "updateCallback listener"
  shows "storedRotation (snd (rotateRightNode parser listener nodeId)) nodeId
           = Some (if r = 360 then 90 else r + 90)
         \<and> updateCallback (snd (rotateRightNode parser listener nodeId))"
  unfolding rotateRightNode_def using rotateModelNode_step [OF assms] by simp

lemma rotateLeftNode_step:
  assumes "storedRotation listener nodeId = Some r" and "updateCallback listener"
  shows "storedRotation (snd (rotateLeftNode parser listener nodeId)) nodeId
           = Some (if r = - 360 then - 90 else r - 90)
         \<and> updateCallback (snd (rotateLeftNode parser listener nodeId))"
  unfolding rotateLeftNode_def using rotateModelNode_step [OF assms] by simp

lemma rotateRightTimes_from_zero:
  assumes "storedRotation listener nodeId = Some 0" and "updateCallback listener"
  shows "storedRotation (rotateRightTimes 1 parser listener nodeId) nodeId = Some 90"
    and "storedRotation (rotateRightTimes 2 parser listener nodeId) nodeId = Some 180"
    and "storedRotation (rotateRightTimes 3 parser listener nodeId) nodeId = Some 270"
    and "storedRotation (rotateRightTimes 4 parser listener nodeId) nodeId = Some 360"
    and "storedRotation (rotateRightTimes 5 parser listener nodeId) nodeId = Some 90"
proof -
  let ?s = "\<lambda>l. snd (rotateRightNode parser l nodeId)"
  have s1: "storedRotation (?s listener) nodeId = Some 90 \<and> updateCallback (?s listener)"
    using rotateRightNode_step [OF assms] by simp
  have s2: "storedRotation (?s (?s listener)) nodeId = Some 180 \<and> updateCallback (?s (?s listener))"
    using rotateRightNode_step [of "?s listener" nodeId 90 parser] s1 by simp
  have s3: "storedRotation (?s (?s (?s listener))) nodeId = Some 270
            \<and> updateCallback (?s (?s (?s listener)))"
    using rotateRightNode_step [of "?s (?s listener)" nodeId 180 parser] s2 by simp
  have s4: "storedRotation (?s (?s (?s (?s listener)))) nodeId = Some 360
            \<and> updateCallback (?s (?s (?s (?s listener))))"
    using rotateRightNode_step [of "?s (?s (?s listener))" nodeId 270 parser] s3 by simp
  have s5: "storedRotation (?s (?s (?s (?s (?s listener))))) nodeId = Some 90"
    using rotateRightNode_step [of "?s (?s (?s (?s listener)))" nodeId 360 parser] s4 by simp
  show "storedRotation (rotateRightTimes 1 parser listener nodeId) nodeId = Some 90"
    using s1 by simp
  show "storedRotation (rotateRightTimes 2 parser listener nodeId) nodeId = Some 180"
    using s2 by (simp add: eval_nat_numeral)
  show "storedRotation (rotateRightTimes 3 parser listener nodeId) nodeId = Some 270"
    using s3 by (simp add: eval_nat_numeral)
  show "storedRotation (rotateRightTimes 4 parser listener nodeId) nodeId = Some 360"
    using s4 by (simp add: eval_nat_numeral)
  show "storedRotation (rotateRightTimes 5 parser listener nodeId) nodeId = Some 90"
    using s5 by (simp add: eval_nat_numeral)
qed

lemma example_listener_ready:
  "storedRotation exampleListener ''node1'' = Some 0" "updateCallback exampleListener"
  by (simp_all add: storedRotation_def exampleListener_def exampleModel_def exampleGraph_def
      getModel_def exampleNode1_eq)

text \<open>Four rotations to the right take the example node from 0 to 360, not to 90.\<close>

theorem rotateRight_four_times_counterexample:
  "storedRotation exampleListener ''node1'' = Some 0
   \<and> storedRotation (rotateRightTimes 4 noSvg exampleListener ''node1'') ''node1'' = Some 360
   \<and> storedRotation (rotateRightTimes 4 noSvg exampleListener ''node1'') ''node1'' \<noteq> Some 90"
  using rotateRightTimes_from_zero(4) [OF example_listener_ready, of noSvg] example_listener_ready(1)
  by simp

text \<open>
  Claim C5, amended. For every top-level node whose stored rotation starts at 0, with the
  listener configured, rotate-right applied four times in a row leaves the stored
  rotation at 360, through 90, 180 and 270; the wrap from 360 back to 90 happens on the
  fifth application.
\<close>

theorem rotateRight_four_times:
  assumes "storedRotation listener nodeId = Some 0" and "updateCallback listener"
  shows "storedRotation (rotateRightTimes 4 parser listener nodeId) nodeId = Some 360
         \<and> storedRotation (rotateRightTimes 5 parser listener nodeId) nodeId = Some 90
         \<and> map (\<lambda>n. storedRotation (rotateRightTimes n parser listener nodeId) nodeId) [1, 2, 3]
             = [Some 90, Some 180, Some 270]"
  using rotateRightTimes_from_zero [OF assms] by simp

theorem rotateRight_four_times_witness:
  "storedRotation exampleListener ''node1'' = Some 0 \<and> updateCallback exampleListener
   \<and> storedRotation (rotateRightTimes 4 noSvg exampleListener ''node1'') ''node1'' = Some 360
   \<and> storedRotation (rotateRightTimes 5 noSvg exampleListener ''node1'') ''node1'' = Some 90"
  using rotateRight_four_times [OF example_listener_ready, of noSvg] example_listener_ready
  by simp


end
